theory Spec2Isabelle
  imports Complex_Main
begin

section \<open>Python floats and the exceptions of float arithmetic\<close>

text \<open>
  The three simulators compute on Python floats. A float is modelled as an extended real:
  a finite value carries an exact real number, and the three special values of the IEEE
  format are constructors of their own. The model keeps everything that decides which
  branch the code takes and whether it raises: the special values, the comparisons that
  are all false on NaN, the argument order of \<open>min\<close> and \<open>max\<close>, and the two
  exceptions of float arithmetic. It leaves out the sign of zero, the overflow of a
  finite result to an infinity, and the rounding of finite results to 53 bits, except in
  the one comparison of the queue simulator where the rounding decides the branch.
\<close>

datatype pyfloat = Fin real | PInf | NInf | NaN

datatype error = ZeroDivisionError | OverflowError

fun isnan :: "pyfloat \<Rightarrow> bool" where
  "isnan NaN = True"
| "isnan _ = False"

fun isinf :: "pyfloat \<Rightarrow> bool" where
  "isinf PInf = True"
| "isinf NInf = True"
| "isinf _ = False"

text \<open>\<open>a < b\<close> on floats: false as soon as one side is NaN.\<close>

fun py_lt :: "pyfloat \<Rightarrow> pyfloat \<Rightarrow> bool" where
  "py_lt (Fin x) (Fin y) = (x < y)"
| "py_lt (Fin x) PInf = True"
| "py_lt NInf (Fin y) = True"
| "py_lt NInf PInf = True"
| "py_lt _ _ = False"

definition py_gt :: "pyfloat \<Rightarrow> pyfloat \<Rightarrow> bool" where
  "py_gt a b = py_lt b a"

text \<open>\<open>a >= b\<close> on floats: neither side is NaN and \<open>a\<close> is not below \<open>b\<close>.\<close>

definition py_ge :: "pyfloat \<Rightarrow> pyfloat \<Rightarrow> bool" where
  "py_ge a b = (if isnan a then False else if isnan b then False else \<not> py_lt a b)"

text \<open>
  The builtins \<open>min(a, b)\<close> and \<open>max(a, b)\<close> start from the first argument and replace it
  by the second only when the second compares strictly below (above) it. With a NaN the
  comparison is false, so the first argument is kept.
\<close>

definition py_min :: "pyfloat \<Rightarrow> pyfloat \<Rightarrow> pyfloat" where
  "py_min a b = (if py_lt b a then b else a)"

definition py_max :: "pyfloat \<Rightarrow> pyfloat \<Rightarrow> pyfloat" where
  "py_max a b = (if py_gt b a then b else a)"

fun py_neg :: "pyfloat \<Rightarrow> pyfloat" where
  "py_neg (Fin x) = Fin (- x)"
| "py_neg PInf = NInf"
| "py_neg NInf = PInf"
| "py_neg NaN = NaN"

fun py_add :: "pyfloat \<Rightarrow> pyfloat \<Rightarrow> pyfloat" where
  "py_add (Fin x) (Fin y) = Fin (x + y)"
| "py_add NaN _ = NaN"
| "py_add _ NaN = NaN"
| "py_add PInf NInf = NaN"
| "py_add NInf PInf = NaN"
| "py_add PInf _ = PInf"
| "py_add NInf _ = NInf"
| "py_add (Fin x) b = b"

definition py_sub :: "pyfloat \<Rightarrow> pyfloat \<Rightarrow> pyfloat" where
  "py_sub a b = py_add a (py_neg b)"

text \<open>The sign of a float that is neither NaN nor zero: \<open>True\<close> for positive.\<close>

fun positive :: "pyfloat \<Rightarrow> bool" where
  "positive (Fin x) = (0 < x)"
| "positive PInf = True"
| "positive _ = False"

definition signed_inf :: "bool \<Rightarrow> pyfloat" where
  "signed_inf pos = (if pos then PInf else NInf)"

fun py_mul :: "pyfloat \<Rightarrow> pyfloat \<Rightarrow> pyfloat" where
  "py_mul (Fin x) (Fin y) = Fin (x * y)"
| "py_mul NaN _ = NaN"
| "py_mul _ NaN = NaN"
| "py_mul (Fin x) b = (if x = 0 then NaN else signed_inf (positive b = (0 < x)))"
| "py_mul a (Fin y) = (if y = 0 then NaN else signed_inf (positive a = (0 < y)))"
| "py_mul PInf b = b"
| "py_mul NInf b = py_neg b"

text \<open>
  Float division raises \<open>ZeroDivisionError\<close> whenever the divisor is zero, whatever the
  dividend. Otherwise it follows IEEE: a finite value over an infinity is zero, an
  infinity over an infinity is NaN.
\<close>

fun ieee_div :: "pyfloat \<Rightarrow> pyfloat \<Rightarrow> pyfloat" where
  "ieee_div (Fin x) (Fin y) = Fin (x / y)"
| "ieee_div NaN _ = NaN"
| "ieee_div _ NaN = NaN"
| "ieee_div (Fin x) _ = Fin 0"
| "ieee_div a (Fin y) = signed_inf (positive a = (0 < y))"
| "ieee_div PInf _ = NaN"
| "ieee_div NInf _ = NaN"

definition py_div :: "pyfloat \<Rightarrow> pyfloat \<Rightarrow> error + pyfloat" where
  "py_div a b = (if b = Fin 0 then Inl ZeroDivisionError else Inr (ieee_div a b))"

text \<open>
  An int operand of a float operation is converted to a float first. The conversion
  rounds to the nearest double and raises \<open>OverflowError\<close> when that is beyond the largest
  double \<open>2^1024 - 2^971\<close>, which is the case from \<open>2^1024 - 2^970\<close> on.
\<close>

definition float_of_int :: "int \<Rightarrow> error + pyfloat" where
  "float_of_int n =
     (if \<bar>n\<bar> < 2 ^ 1024 - 2 ^ 970 then Inr (Fin (of_int n)) else Inl OverflowError)"

text \<open>
  \<open>round(x, n)\<close> rounds to \<open>n\<close> decimals, a tie going to the even neighbour; NaN and
  the infinities round to themselves.
\<close>

definition round_half_even :: "real \<Rightarrow> int" where
  "round_half_even x =
     (let f = \<lfloor>x\<rfloor>; d = x - of_int f
      in if d < 1 / 2 then f else if 1 / 2 < d then f + 1
         else if even f then f else f + 1)"

fun py_round :: "pyfloat \<Rightarrow> nat \<Rightarrow> pyfloat" where
  "py_round (Fin x) n = Fin (of_int (round_half_even (x * 10 ^ n)) / 10 ^ n)"
| "py_round a n = a"

section \<open>The queue simulator\<close>

text \<open>\<open>simulators/queue/app.py\<close>: the request body and the metrics of the response.\<close>

record QueueInput =
  arrival_rate :: pyfloat
  service_rate :: pyfloat

record QueueMetrics =
  avg_wait_time_min :: pyfloat
  utilization :: pyfloat
  avg_queue_length :: pyfloat

text \<open>
  Line 16: \<open>rho = inp.arrival_rate / inp.service_rate if inp.service_rate > 0 else 0.0\<close>.
\<close>

definition rho_of :: "QueueInput \<Rightarrow> error + pyfloat" where
  "rho_of inp =
     (if py_gt (service_rate inp) (Fin 0) then py_div (arrival_rate inp) (service_rate inp)
      else Inr (Fin 0))"

text \<open>
  The test \<open>rho >= 0.95\<close> of line 19 is the one place where the rounding of a finite
  result decides a branch, so there it is modelled. The literal \<open>0.95\<close> is the double
  nearest to 19/20, which lies below 19/20.
\<close>

definition double_0_95 :: real where
  "double_0_95 = 8556839292003942 / 2 ^ 53"

text \<open>
  The \<open>rho\<close> that line 19 sees is the double nearest to the exact quotient. Between 1/2
  and 1 the doubles are the multiples of \<open>2^-53\<close>, and the nearest one is the nearest
  multiple, a tie going to the even numerator. Rounding to that grid therefore gives the
  code's \<open>rho\<close> whenever it lies between 1/2 and 1. A quotient of 1 or more stays at 1
  or more under either rounding, and one of 1/2 or less stays at 1/2 or less, so against
  a double between 1/2 and 1 the rounded value compares as the code's \<open>rho\<close> does.
\<close>

fun to_grid53 :: "pyfloat \<Rightarrow> pyfloat" where
  "to_grid53 (Fin x) = Fin (of_int (round_half_even (x * 2 ^ 53)) / 2 ^ 53)"
| "to_grid53 a = a"

text \<open>
  Lines 19 to 29: the three-way branch on \<open>rho\<close> that sets \<open>wait\<close> and \<open>queue_length\<close>.
  The last branch divides twice, and the first division is by
  \<open>inp.service_rate * (1 - rho)\<close>.
\<close>

definition system_state :: "QueueInput \<Rightarrow> pyfloat \<Rightarrow> error + pyfloat \<times> pyfloat" where
  "system_state inp rho =
     (if py_ge (to_grid53 rho) (Fin double_0_95) then Inr (Fin 240, Fin 50)
      else if py_lt rho (Fin 0) then Inr (Fin 0, Fin 0)
      else
        (case py_div rho (py_mul (service_rate inp) (py_sub (Fin 1) rho)) of
           Inl e \<Rightarrow> Inl e
         | Inr wait \<Rightarrow>
             (case py_div rho (py_sub (Fin 1) rho) of
                Inl e \<Rightarrow> Inl e
              | Inr queue_length \<Rightarrow> Inr (wait, queue_length))))"

text \<open>Line 32: \<open>wait_minutes = max(0.0, min(wait * 60.0, 300.0))\<close>.\<close>

definition wait_to_minutes :: "pyfloat \<Rightarrow> pyfloat" where
  "wait_to_minutes wait = py_max (Fin 0) (py_min (py_mul wait (Fin 60)) (Fin 300))"

text \<open>
  Lines 35 and 36: \<open>if math.isnan(wait_minutes) or math.isinf(wait_minutes):
  wait_minutes = 240.0\<close>.
\<close>

definition json_safe_wait :: "pyfloat \<Rightarrow> pyfloat" where
  "json_safe_wait wait_minutes =
     (if isnan wait_minutes \<or> isinf wait_minutes then Fin 240 else wait_minutes)"

text \<open>Line 39: \<open>utilization = max(0.0, min(rho, 0.99))\<close>.\<close>

definition clamp_utilization :: "pyfloat \<Rightarrow> pyfloat" where
  "clamp_utilization rho = py_max (Fin 0) (py_min rho (Fin 0.99))"

text \<open>
  Line 42: \<open>queue_length = max(0.0, min(queue_length if not math.isnan(queue_length)
  else 50.0, 100.0))\<close>, the conditional expression first and the clamp around it.
\<close>

definition nan_to_default :: "pyfloat \<Rightarrow> pyfloat" where
  "nan_to_default queue_length = (if \<not> isnan queue_length then queue_length else Fin 50)"

definition cap_queue_length :: "pyfloat \<Rightarrow> pyfloat" where
  "cap_queue_length queue_length =
     py_max (Fin 0) (py_min (nan_to_default queue_length) (Fin 100))"

text \<open>
  Lines 16 to 42 together: the values of \<open>wait_minutes\<close>, \<open>utilization\<close> and
  \<open>queue_length\<close> when the \<open>return\<close> is reached, before they are rounded.
\<close>

definition queue_estimate :: "QueueInput \<Rightarrow> error + QueueMetrics" where
  "queue_estimate inp =
     (case rho_of inp of
        Inl e \<Rightarrow> Inl e
      | Inr rho \<Rightarrow>
          (case system_state inp rho of
             Inl e \<Rightarrow> Inl e
           | Inr (wait, queue_length) \<Rightarrow>
               Inr \<lparr>avg_wait_time_min = json_safe_wait (wait_to_minutes wait),
                    utilization = clamp_utilization rho,
                    avg_queue_length = cap_queue_length queue_length\<rparr>))"

text \<open>Lines 44 to 50: the response, each value rounded.\<close>

definition round_metrics :: "QueueMetrics \<Rightarrow> QueueMetrics" where
  "round_metrics m =
     \<lparr>avg_wait_time_min = py_round (avg_wait_time_min m) 2,
      utilization = py_round (utilization m) 3,
      avg_queue_length = py_round (avg_queue_length m) 2\<rparr>"

definition queue_simulate :: "QueueInput \<Rightarrow> error + QueueMetrics" where
  "queue_simulate inp =
     (case queue_estimate inp of Inl e \<Rightarrow> Inl e | Inr m \<Rightarrow> Inr (round_metrics m))"

text \<open>
  The exact quotients from which the rounded quotient reaches the literal \<open>0.95\<close>: the
  midpoint between that double and the double below it, at which the tie goes up to the
  literal, whose numerator is even.
\<close>

definition overload_threshold :: real where
  "overload_threshold = 17113678584007883 / 2 ^ 54"

section \<open>The resource simulator\<close>

text \<open>\<open>simulators/resource/app.py\<close>. The staff count is a Python int.\<close>

record ResourceInput =
  staff :: int
  shifts :: "string list option"

record ResourceMetrics =
  coverage_units :: pyfloat
  satisfaction :: pyfloat

text \<open>
  Line 14 multiplies the int by \<open>0.8\<close> and line 15 divides it by \<open>100.0\<close>: each
  converts the int to a float, and the first conversion already raises when the second
  would.
\<close>

definition resource_simulate :: "ResourceInput \<Rightarrow> error + ResourceMetrics" where
  "resource_simulate inp =
     (case float_of_int (staff inp) of
        Inl e \<Rightarrow> Inl e
      | Inr s \<Rightarrow>
          (let coverage = py_mul s (Fin 0.8)
           in case float_of_int (staff inp) of
                Inl e \<Rightarrow> Inl e
              | Inr s' \<Rightarrow>
                  (case py_div s' (Fin 100) of
                     Inl e \<Rightarrow> Inl e
                   | Inr ratio \<Rightarrow>
                       Inr \<lparr>coverage_units = coverage,
                            satisfaction = py_min (Fin 1) (py_add (Fin 0.5) ratio)\<rparr>)))"

section \<open>The traffic simulator\<close>

text \<open>\<open>simulators/traffic/app.py\<close>. The signal timing is read from the request and not used.\<close>

record TrafficInput =
  density :: pyfloat
  signal_timing :: "pyfloat option"

record TrafficMetrics =
  avg_speed_kmh :: pyfloat
  throughput_veh_per_hr :: pyfloat

text \<open>
  Line 14: \<open>speed = max(5.0, 60.0 * (1.0 - min(1.0, max(0.0, inp.density))))\<close>;
  line 15: \<open>throughput = speed * 10.0\<close>.
\<close>

definition traffic_simulate :: "TrafficInput \<Rightarrow> TrafficMetrics" where
  "traffic_simulate inp =
     (let speed =
            py_max (Fin 5)
              (py_mul (Fin 60) (py_sub (Fin 1) (py_min (Fin 1) (py_max (Fin 0) (density inp)))));
          throughput = py_mul speed (Fin 10)
      in \<lparr>avg_speed_kmh = speed, throughput_veh_per_hr = throughput\<rparr>)"

section \<open>Facts about float arithmetic and rounding\<close>

lemmas float_ops = py_gt_def py_ge_def py_min_def py_max_def py_sub_def py_div_def

lemmas metrics_eval = round_metrics_def round_half_even_def

lemma round_half_even_of_int: "round_half_even (of_int k) = k"
  by (simp add: round_half_even_def)

lemma round_half_even_ge: "of_int k \<le> x \<Longrightarrow> k \<le> round_half_even x"
  unfolding round_half_even_def Let_def by (auto simp: le_floor_iff) linarith+

lemma round_half_even_le: "x \<le> of_int k \<Longrightarrow> round_half_even x \<le> k"
  unfolding round_half_even_def Let_def by (auto simp: floor_le_iff)

lemma round_half_even_close: "\<bar>of_int (round_half_even x) - x\<bar> \<le> 1 / 2"
  unfolding round_half_even_def Let_def by (auto; linarith)

lemma round_half_even_ge_even_iff:
  assumes "even k"
  shows "k \<le> round_half_even y \<longleftrightarrow> of_int k - 1 / 2 \<le> y"
proof
  assume "of_int k - 1 / 2 \<le> y"
  show "k \<le> round_half_even y"
  proof (cases "of_int k \<le> y")
    case True
    then show ?thesis by (rule round_half_even_ge)
  next
    case False
    with \<open>of_int k - 1 / 2 \<le> y\<close> have f: "\<lfloor>y\<rfloor> = k - 1" by linarith
    then have "odd \<lfloor>y\<rfloor>" using assms by simp
    with f \<open>of_int k - 1 / 2 \<le> y\<close> show ?thesis
      unfolding round_half_even_def Let_def by auto
  qed
next
  assume a: "k \<le> round_half_even y"
  show "of_int k - 1 / 2 \<le> y"
  proof (rule ccontr)
    assume "\<not> of_int k - 1 / 2 \<le> y"
    then have lt: "y < of_int k - 1 / 2" by simp
    then have fl: "\<lfloor>y\<rfloor> \<le> k - 1" by linarith
    have "round_half_even y \<le> k - 1"
    proof (cases "\<lfloor>y\<rfloor> = k - 1")
      case True
      with lt have "y - of_int \<lfloor>y\<rfloor> < 1 / 2" by simp
      then show ?thesis unfolding round_half_even_def Let_def using True by simp
    next
      case False
      with fl have "\<lfloor>y\<rfloor> + 1 \<le> k - 1" by simp
      moreover have "round_half_even y \<le> \<lfloor>y\<rfloor> + 1"
        unfolding round_half_even_def Let_def by simp
      ultimately show ?thesis by simp
    qed
    with a show False by simp
  qed
qed

text \<open>
  The test of line 19 on the rounded quotient, as a test on the exact quotient.
\<close>

lemma overload_test_iff:
  "py_ge (to_grid53 (Fin x)) (Fin double_0_95) \<longleftrightarrow> overload_threshold \<le> x"
proof -
  have e: "even (8556839292003942::int)" by simp
  have "py_ge (to_grid53 (Fin x)) (Fin double_0_95)
      \<longleftrightarrow> (8556839292003942::real) / 2 ^ 53 \<le> of_int (round_half_even (x * 2 ^ 53)) / 2 ^ 53"
    by (simp add: py_ge_def double_0_95_def not_less)
  also have "\<dots> \<longleftrightarrow> (8556839292003942::int) \<le> round_half_even (x * 2 ^ 53)"
    by (simp add: divide_le_cancel flip: of_int_le_iff)
  also have "\<dots> \<longleftrightarrow> of_int (8556839292003942::int) - 1 / 2 \<le> x * 2 ^ 53"
    by (rule round_half_even_ge_even_iff [OF e])
  also have "\<dots> \<longleftrightarrow> overload_threshold \<le> x"
    by (simp add: overload_threshold_def field_simps)
  finally show ?thesis .
qed

lemma threshold_facts:
  "0 < overload_threshold" "overload_threshold < 0.95" "overload_threshold < double_0_95"
  "double_0_95 < 0.95" "overload_threshold \<le> 0.99" "overload_threshold < 1"
  by (simp_all add: overload_threshold_def double_0_95_def)

text \<open>
  Rounding to \<open>n\<close> decimals keeps a value between two bounds that have at most \<open>n\<close>
  decimals themselves, and moves it by at most half a unit of the last decimal.
\<close>

lemma py_round_bounds:
  assumes "of_int lo / 10 ^ n \<le> x" "x \<le> of_int hi / 10 ^ n"
  shows "\<exists>y. py_round (Fin x) n = Fin y \<and> of_int lo / 10 ^ n \<le> y \<and> y \<le> of_int hi / 10 ^ n
           \<and> \<bar>y - x\<bar> \<le> 1 / (2 * 10 ^ n)"
proof -
  let ?k = "round_half_even (x * 10 ^ n)"
  have p: "(0::real) < 10 ^ n" by simp
  from assms have "of_int lo \<le> x * 10 ^ n" "x * 10 ^ n \<le> of_int hi"
    by (simp_all add: pos_divide_le_eq pos_le_divide_eq)
  then have "lo \<le> ?k" "?k \<le> hi"
    by (simp_all add: round_half_even_ge round_half_even_le)
  then have b: "of_int lo / 10 ^ n \<le> of_int ?k / (10 ^ n :: real)"
               "of_int ?k / (10 ^ n :: real) \<le> of_int hi / 10 ^ n"
    by (simp_all add: divide_right_mono)
  have "\<bar>of_int ?k - x * 10 ^ n\<bar> \<le> 1 / 2" by (rule round_half_even_close)
  then have "\<bar>of_int ?k - x * 10 ^ n\<bar> / 10 ^ n \<le> (1 / 2) / (10 ^ n :: real)"
    by (rule divide_right_mono) simp
  moreover have "(of_int ?k - x * 10 ^ n) / 10 ^ n = of_int ?k / 10 ^ n - x"
    by (simp add: diff_divide_distrib)
  then have "\<bar>of_int ?k - x * 10 ^ n\<bar> / 10 ^ n = \<bar>of_int ?k / 10 ^ n - x\<bar>"
    using p by (metis abs_divide abs_of_pos)
  ultimately have c: "\<bar>of_int ?k / 10 ^ n - x\<bar> \<le> 1 / (2 * 10 ^ n)" by simp
  show ?thesis using b c by simp
qed

lemma py_round_exact:
  assumes "x * 10 ^ n = of_int k"
  shows "py_round (Fin x) n = Fin x"
proof -
  have "round_half_even (x * 10 ^ n) = k" by (simp add: assms round_half_even_of_int)
  moreover have "of_int k / 10 ^ n = x" using assms [symmetric] by simp
  ultimately show ?thesis by simp
qed

text \<open>Rounding the three metrics keeps each in its range and within its tolerance.\<close>

lemma round_metrics_bounds:
  assumes "0 \<le> w" "w \<le> 300" "0 \<le> u" "u \<le> 0.99" "0 \<le> q" "q \<le> 100"
  shows "\<exists>w' u' q'.
           round_metrics \<lparr>avg_wait_time_min = Fin w, utilization = Fin u, avg_queue_length = Fin q\<rparr> =
             \<lparr>avg_wait_time_min = Fin w', utilization = Fin u', avg_queue_length = Fin q'\<rparr>
         \<and> 0 \<le> w' \<and> w' \<le> 300 \<and> \<bar>w' - w\<bar> \<le> 0.005
         \<and> 0 \<le> u' \<and> u' \<le> 0.99 \<and> \<bar>u' - u\<bar> \<le> 0.0005
         \<and> 0 \<le> q' \<and> q' \<le> 100 \<and> \<bar>q' - q\<bar> \<le> 0.005"
proof -
  from py_round_bounds [of 0 2 w 30000] assms(1,2)
  obtain w' where w: "py_round (Fin w) 2 = Fin w'" "0 \<le> w'" "w' \<le> 300" "\<bar>w' - w\<bar> \<le> 0.005"
    by auto
  from py_round_bounds [of 0 3 u 990] assms(3,4)
  obtain u' where u: "py_round (Fin u) 3 = Fin u'" "0 \<le> u'" "u' \<le> 0.99" "\<bar>u' - u\<bar> \<le> 0.0005"
    by auto
  from py_round_bounds [of 0 2 q 10000] assms(5,6)
  obtain q' where q: "py_round (Fin q) 2 = Fin q'" "0 \<le> q'" "q' \<le> 100" "\<bar>q' - q\<bar> \<le> 0.005"
    by auto
  show ?thesis
    unfolding round_metrics_def using w u q by (simp del: py_round.simps)
qed

section \<open>The queue simulator on finite inputs\<close>

lemma rho_of_finite:
  "rho_of \<lparr>arrival_rate = Fin a, service_rate = Fin s\<rparr> = Inr (Fin (if 0 < s then a / s else 0))"
  by (simp add: rho_of_def float_ops)

lemma system_state_finite:
  "system_state \<lparr>arrival_rate = a, service_rate = Fin s\<rparr> (Fin r) =
     (if overload_threshold \<le> r then Inr (Fin 240, Fin 50)
      else if r < 0 then Inr (Fin 0, Fin 0)
      else if s = 0 then Inl ZeroDivisionError
      else Inr (Fin (r / (s * (1 - r))), Fin (r / (1 - r))))"
proof -
  have "r < overload_threshold \<Longrightarrow> r \<noteq> 1" using threshold_facts(6) by simp
  then show ?thesis
    unfolding system_state_def overload_test_iff
    by (simp add: py_div_def py_sub_def not_le)
qed

lemma clamp_utilization_finite: "clamp_utilization (Fin r) = Fin (max 0 (min r 0.99))"
  by (simp add: clamp_utilization_def float_ops)

lemma wait_to_minutes_finite: "wait_to_minutes (Fin w) = Fin (max 0 (min (w * 60) 300))"
  by (simp add: wait_to_minutes_def float_ops)

lemma cap_queue_length_finite: "cap_queue_length (Fin q) = Fin (max 0 (min q 100))"
  by (simp add: cap_queue_length_def nan_to_default_def float_ops)

lemma json_safe_wait_finite: "json_safe_wait (Fin w) = Fin w"
  by (simp add: json_safe_wait_def)

lemma queue_length_formula_bounds:
  assumes "0 \<le> r" "r < overload_threshold"
  shows "0 \<le> r / (1 - r)" "r / (1 - r) \<le> (100::real)"
proof -
  from assms(2) threshold_facts(2) have "r < 0.95" by linarith
  with assms(1) show "0 \<le> r / (1 - r)" "r / (1 - r) \<le> (100::real)"
    by (simp_all add: field_simps)
qed

text \<open>
  What lines 16 to 42 compute on a pair of finite rates, branch by branch. In the last
  branch the divisor \<open>service_rate * (1 - rho)\<close> is zero exactly when the service rate is.
\<close>

lemma queue_estimate_finite:
  assumes "r = (if 0 < s then a / s else 0)"
  shows "queue_estimate \<lparr>arrival_rate = Fin a, service_rate = Fin s\<rparr> =
     (if overload_threshold \<le> r then
        Inr \<lparr>avg_wait_time_min = Fin 300, utilization = Fin (min r 0.99),
             avg_queue_length = Fin 50\<rparr>
      else if r < 0 then
        Inr \<lparr>avg_wait_time_min = Fin 0, utilization = Fin 0, avg_queue_length = Fin 0\<rparr>
      else if s = 0 then Inl ZeroDivisionError
      else
        Inr \<lparr>avg_wait_time_min = Fin (max 0 (min (r / (s * (1 - r)) * 60) 300)),
             utilization = Fin r, avg_queue_length = Fin (r / (1 - r))\<rparr>)"
proof -
  have rho: "rho_of \<lparr>arrival_rate = Fin a, service_rate = Fin s\<rparr> = Inr (Fin r)"
    by (simp add: rho_of_finite assms)
  show ?thesis
  proof (cases "overload_threshold \<le> r \<or> r < 0 \<or> s = 0")
    case True
    have "overload_threshold \<le> r \<Longrightarrow> max 0 (min r 0.99) = min r 0.99"
      using threshold_facts(1) by simp
    with True show ?thesis
      unfolding queue_estimate_def rho
      by (auto simp add: system_state_finite clamp_utilization_finite wait_to_minutes_finite
          cap_queue_length_finite json_safe_wait_finite)
  next
    case False
    then have r: "0 \<le> r" "r < overload_threshold" and s: "s \<noteq> 0" by auto
    from queue_length_formula_bounds [OF r]
    have q: "max 0 (min (r / (1 - r)) 100) = r / (1 - r)" by linarith
    from r(2) threshold_facts(5) have u: "r \<le> 0.99" by linarith
    show ?thesis
      unfolding queue_estimate_def rho
      using r s u
      by (simp add: system_state_finite clamp_utilization_finite wait_to_minutes_finite
          cap_queue_length_finite json_safe_wait_finite q)
  qed
qed

lemma queue_estimate_overload:
  assumes "0 < s" and "overload_threshold \<le> a / s"
  shows "queue_estimate \<lparr>arrival_rate = Fin a, service_rate = Fin s\<rparr> =
           Inr \<lparr>avg_wait_time_min = Fin 300, utilization = Fin (min (a / s) 0.99),
                avg_queue_length = Fin 50\<rparr>"
proof -
  have "a / s = (if 0 < s then a / s else 0)" using assms by simp
  from queue_estimate_finite [OF this] assms(2) show ?thesis by (simp only: if_True)
qed

lemma queue_estimate_negative:
  assumes "0 < s" and "a / s < 0"
  shows "queue_estimate \<lparr>arrival_rate = Fin a, service_rate = Fin s\<rparr> =
           Inr \<lparr>avg_wait_time_min = Fin 0, utilization = Fin 0, avg_queue_length = Fin 0\<rparr>"
proof -
  have r: "a / s = (if 0 < s then a / s else 0)" using assms by simp
  from assms(2) threshold_facts(1) have n: "\<not> overload_threshold \<le> a / s" by linarith
  from queue_estimate_finite [OF r] n assms(2) show ?thesis by (simp only: if_True if_False)
qed

lemma queue_estimate_normal:
  assumes "0 < s" and "0 \<le> a / s" and "a / s < overload_threshold"
  shows "queue_estimate \<lparr>arrival_rate = Fin a, service_rate = Fin s\<rparr> =
           Inr \<lparr>avg_wait_time_min = Fin (max 0 (min (a / s / (s * (1 - a / s)) * 60) 300)),
                utilization = Fin (a / s), avg_queue_length = Fin (a / s / (1 - a / s))\<rparr>"
proof -
  have r: "a / s = (if 0 < s then a / s else 0)" using assms by simp
  have n: "\<not> overload_threshold \<le> a / s" "\<not> a / s < 0" "\<not> s = 0" using assms by linarith+
  from queue_estimate_finite [OF r] n show ?thesis by (simp only: if_False)
qed

lemma queue_estimate_negative_service:
  assumes "s < 0"
  shows "queue_estimate \<lparr>arrival_rate = Fin a, service_rate = Fin s\<rparr> =
           Inr \<lparr>avg_wait_time_min = Fin 0, utilization = Fin 0, avg_queue_length = Fin 0\<rparr>"
proof -
  have r: "0 = (if 0 < s then a / s else 0)" using assms by simp
  have n: "\<not> overload_threshold \<le> 0" using threshold_facts(1) by simp
  from queue_estimate_finite [OF r] assms n show ?thesis by simp
qed

lemma queue_estimate_zero_service:
  "queue_estimate \<lparr>arrival_rate = Fin a, service_rate = Fin 0\<rparr> = Inl ZeroDivisionError"
proof -
  have r: "0 = (if 0 < (0::real) then a / 0 else 0)" by simp
  have n: "\<not> overload_threshold \<le> 0" using threshold_facts(1) by simp
  from queue_estimate_finite [OF r] n show ?thesis by simp
qed

lemma queue_estimate_in_range:
  assumes "s \<noteq> 0"
  shows "\<exists>w u q. queue_estimate \<lparr>arrival_rate = Fin a, service_rate = Fin s\<rparr> =
             Inr \<lparr>avg_wait_time_min = Fin w, utilization = Fin u, avg_queue_length = Fin q\<rparr>
         \<and> 0 \<le> w \<and> w \<le> 300 \<and> 0 \<le> u \<and> u \<le> 0.99 \<and> 0 \<le> q \<and> q \<le> 100"
proof -
  define r where "r = (if 0 < s then a / s else 0)"
  note est = queue_estimate_finite [OF r_def]
  consider (over) "overload_threshold \<le> r" | (neg) "r < 0"
    | (normal) "0 \<le> r" "r < overload_threshold"
    by linarith
  then show ?thesis
  proof cases
    case over
    with threshold_facts(1) have "0 \<le> r" by linarith
    with over show ?thesis by (simp add: est)
  next
    case neg
    with threshold_facts(1) have "\<not> overload_threshold \<le> r" by linarith
    with neg show ?thesis by (simp add: est)
  next
    case normal
    from queue_length_formula_bounds [OF normal]
    have q: "0 \<le> r / (1 - r)" "r / (1 - r) \<le> 100" .
    have u: "r \<le> 0.99" using normal threshold_facts(5) by linarith
    have n: "\<not> overload_threshold \<le> r" "\<not> r < 0" using normal by linarith+
    show ?thesis using assms q u normal(1) by (simp add: est n)
  qed
qed

section \<open>The overload branch\<close>

text \<open>
  With a positive service rate and \<open>rho >= 0.95\<close> the branch sets \<open>wait = 240.0\<close> and
  \<open>queue_length = 50.0\<close>. Line 32 then treats \<open>wait\<close> as hours like the value of the
  last branch: it multiplies by 60 and caps the product \<open>14400\<close> at \<open>300\<close>. The wait
  that leaves the function is 300 minutes, the queue length is 50.
\<close>

lemma overload_branch:
  assumes "0 < s" and "overload_threshold \<le> a / s"
  shows "system_state \<lparr>arrival_rate = Fin a, service_rate = Fin s\<rparr> (Fin (a / s)) =
           Inr (Fin 240, Fin 50)"
    and "wait_to_minutes (Fin 240) = Fin 300"
    and "queue_estimate \<lparr>arrival_rate = Fin a, service_rate = Fin s\<rparr> =
           Inr \<lparr>avg_wait_time_min = Fin 300, utilization = Fin (min (a / s) 0.99),
                avg_queue_length = Fin 50\<rparr>"
    and "\<exists>u. queue_simulate \<lparr>arrival_rate = Fin a, service_rate = Fin s\<rparr> =
           Inr \<lparr>avg_wait_time_min = Fin 300, utilization = u, avg_queue_length = Fin 50\<rparr>"
  using assms
  by (simp_all add: system_state_finite wait_to_minutes_finite queue_simulate_def
        queue_estimate_overload metrics_eval)

text \<open>
  Claim C1: for every pair with \<open>service_rate > 0\<close> and \<open>rho >= 0.95\<close> the estimator
  returns a wait of exactly 240.0 minutes and a queue length of exactly 50.0, and the pair
  (19, 20) yields a wait of 240.0. The code returns 300.0 for the wait at (19, 20): the
  value that its own comment calls four hours in minutes is multiplied by 60 once more.
\<close>

theorem overload_wait_is_300:
  "queue_simulate \<lparr>arrival_rate = Fin 19, service_rate = Fin 20\<rparr> =
     Inr \<lparr>avg_wait_time_min = Fin 300, utilization = Fin 0.95, avg_queue_length = Fin 50\<rparr>"
proof -
  have "overload_threshold \<le> 19 / 20" by (simp add: overload_threshold_def)
  then show ?thesis
    by (simp add: queue_simulate_def queue_estimate_overload metrics_eval)
qed

section \<open>A service rate of zero\<close>

text \<open>
  Line 16 sets \<open>rho = 0.0\<close> when the service rate is not positive, and the branch on
  \<open>rho\<close> then takes the formulas of line 28, whose divisor is
  \<open>service_rate * (1 - 0.0)\<close>. With a negative service rate this is \<open>0.0\<close> divided by
  a negative number, and all three outputs are zero. With a service rate of zero the
  division raises. The estimator returns exactly on the pairs whose service rate is not
  zero.
\<close>

lemma queue_simulate_returns_iff:
  "(\<exists>m. queue_simulate \<lparr>arrival_rate = Fin a, service_rate = Fin s\<rparr> = Inr m) = (s \<noteq> 0)"
  using threshold_facts(1)
  by (auto simp add: queue_simulate_def queue_estimate_finite [OF refl])

lemma negative_service_rate_gives_zeros:
  assumes "s < 0"
  shows "queue_simulate \<lparr>arrival_rate = Fin a, service_rate = Fin s\<rparr> =
           Inr \<lparr>avg_wait_time_min = Fin 0, utilization = Fin 0, avg_queue_length = Fin 0\<rparr>"
  using assms by (simp add: queue_simulate_def queue_estimate_negative_service metrics_eval)

text \<open>
  Claim C2: the estimator is total over all pairs of real numbers, a service rate of zero
  or below included: it never raises and always returns a result. The code raises
  \<open>ZeroDivisionError\<close> on every pair whose service rate is zero.
\<close>

theorem zero_service_rate_raises:
  "queue_simulate \<lparr>arrival_rate = Fin a, service_rate = Fin 0\<rparr> = Inl ZeroDivisionError"
  by (simp add: queue_simulate_def queue_estimate_zero_service)

text \<open>
  Claim C3: for every pair with \<open>service_rate <= 0\<close> the estimator computes
  \<open>rho = 0.0\<close> and returns three zeros, and the pair (5, 0) returns three zeros without
  reaching an undefined division. At (5, 0) the code computes \<open>rho = 0.0\<close> and then
  raises in the division of line 28; nothing is returned.
\<close>

theorem zero_service_rate_example:
  "rho_of \<lparr>arrival_rate = Fin 5, service_rate = Fin 0\<rparr> = Inr (Fin 0)
   \<and> queue_estimate \<lparr>arrival_rate = Fin 5, service_rate = Fin 0\<rparr> = Inl ZeroDivisionError
   \<and> queue_simulate \<lparr>arrival_rate = Fin 5, service_rate = Fin 0\<rparr> = Inl ZeroDivisionError"
  by (simp add: queue_simulate_def queue_estimate_zero_service rho_of_finite)

section \<open>Negative arrival rates\<close>

text \<open>
  Claim C8: for every pair with \<open>service_rate > 0\<close> and \<open>arrival_rate < 0\<close> the
  estimator returns a wait, a queue length and a utilization of 0.0; so it does at
  (-1, 10). The values are zero before rounding and after it.
\<close>

theorem negative_arrival_gives_zeros:
  assumes "0 < s" and "a < 0"
  shows "queue_estimate \<lparr>arrival_rate = Fin a, service_rate = Fin s\<rparr> =
           Inr \<lparr>avg_wait_time_min = Fin 0, utilization = Fin 0, avg_queue_length = Fin 0\<rparr>
       \<and> queue_simulate \<lparr>arrival_rate = Fin a, service_rate = Fin s\<rparr> =
           Inr \<lparr>avg_wait_time_min = Fin 0, utilization = Fin 0, avg_queue_length = Fin 0\<rparr>"
proof -
  from assms have "a / s < 0" by (simp add: divide_neg_pos)
  with assms show ?thesis
    by (simp add: queue_simulate_def queue_estimate_negative metrics_eval)
qed

theorem negative_arrival_gives_zeros_witness:
  "(0::real) < 10 \<and> (- 1::real) < 0
   \<and> queue_simulate \<lparr>arrival_rate = Fin (- 1), service_rate = Fin 10\<rparr> =
       Inr \<lparr>avg_wait_time_min = Fin 0, utilization = Fin 0, avg_queue_length = Fin 0\<rparr>"
  using negative_arrival_gives_zeros [of 10 "- 1"] by simp

section \<open>The normal branch\<close>

text \<open>
  Claim C4 says that the outputs match the M/M/1 formulas for every pair with
  \<open>service_rate > 0\<close> and \<open>0 <= rho < 0.95\<close>, where \<open>rho\<close> is
  \<open>arrival_rate / service_rate\<close>. The code tests the double \<open>rho\<close> against the
  double \<open>0.95\<close>, which is below 19/20. The pair of doubles
  \<open>(8556839292003942, 2^53)\<close> has exactly that double as its quotient: it is below
  0.95, the code takes the overload branch, and the outputs are 300.0, 0.95 and 50.0 where
  the formulas give a wait near 0 and a queue length near 19.
\<close>

theorem quotient_just_below_095_is_overload:
  "(0::real) < 2 ^ 53 \<and> (0::real) \<le> 8556839292003942 / 2 ^ 53
   \<and> (8556839292003942::real) / 2 ^ 53 < 0.95
   \<and> queue_simulate \<lparr>arrival_rate = Fin 8556839292003942, service_rate = Fin (2 ^ 53)\<rparr> =
       Inr \<lparr>avg_wait_time_min = Fin 300, utilization = Fin 0.95, avg_queue_length = Fin 50\<rparr>
   \<and> (8556839292003942::real) / 2 ^ 53 / (1 - 8556839292003942 / 2 ^ 53) < 19
   \<and> \<not> \<bar>50 - (8556839292003942::real) / 2 ^ 53 / (1 - 8556839292003942 / 2 ^ 53)\<bar> \<le> 0.005"
proof -
  have "overload_threshold \<le> 8556839292003942 / 2 ^ 53"
    by (simp add: overload_threshold_def)
  then have "queue_simulate \<lparr>arrival_rate = Fin 8556839292003942, service_rate = Fin (2 ^ 53)\<rparr> =
       Inr \<lparr>avg_wait_time_min = Fin 300, utilization = Fin 0.95, avg_queue_length = Fin 50\<rparr>"
    by (simp add: queue_simulate_def queue_estimate_overload metrics_eval)
  then show ?thesis by simp
qed

text \<open>
  Claim C4, as amended: for every pair with \<open>service_rate > 0\<close> and \<open>rho >= 0\<close> whose
  quotient, rounded to a double, is below the double \<open>0.95\<close>, which is the case when
  the exact quotient is below \<open>17113678584007883 / 2^54\<close>, the outputs match the M/M/1
  formulas within the rounding tolerance: the wait is
  \<open>60 * rho / (service_rate * (1 - rho))\<close> clamped to \<open>[0, 300]\<close>, the utilization is
  \<open>rho\<close>, the queue length is \<open>rho / (1 - rho)\<close>; the pair (5, 10) returns 6.0, 0.5
  and 1.0. In the model the three values before rounding are the formulas exactly, and
  the returned values differ from them by at most half a unit of the last decimal kept,
  which is 0.005, 0.0005 and 0.005.
\<close>

theorem normal_branch_matches_formulas:
  assumes "0 < s" and "0 \<le> a / s" and "a / s < overload_threshold"
  shows "\<exists>w u q.
           queue_estimate \<lparr>arrival_rate = Fin a, service_rate = Fin s\<rparr> =
             Inr \<lparr>avg_wait_time_min = Fin (max 0 (min (60 * (a / s) / (s * (1 - a / s))) 300)),
                  utilization = Fin (a / s),
                  avg_queue_length = Fin (a / s / (1 - a / s))\<rparr>
         \<and> queue_simulate \<lparr>arrival_rate = Fin a, service_rate = Fin s\<rparr> =
             Inr \<lparr>avg_wait_time_min = Fin w, utilization = Fin u, avg_queue_length = Fin q\<rparr>
         \<and> \<bar>w - max 0 (min (60 * (a / s) / (s * (1 - a / s))) 300)\<bar> \<le> 0.005
         \<and> \<bar>u - a / s\<bar> \<le> 0.0005
         \<and> \<bar>q - a / s / (1 - a / s)\<bar> \<le> 0.005"
proof -
  let ?W = "max 0 (min (60 * (a / s) / (s * (1 - a / s))) 300)"
  have est: "queue_estimate \<lparr>arrival_rate = Fin a, service_rate = Fin s\<rparr> =
      Inr \<lparr>avg_wait_time_min = Fin ?W, utilization = Fin (a / s),
           avg_queue_length = Fin (a / s / (1 - a / s))\<rparr>"
    using queue_estimate_normal [OF assms] by (simp add: mult.commute)
  have w: "0 \<le> ?W" "?W \<le> 300" by simp_all
  from assms(3) threshold_facts(5) have u: "a / s \<le> 0.99" by linarith
  note q = queue_length_formula_bounds [OF assms(2,3)]
  from round_metrics_bounds [OF w assms(2) u q] show ?thesis
    unfolding queue_simulate_def est by auto
qed

theorem normal_branch_matches_formulas_witness:
  "(0::real) < 10 \<and> (0::real) \<le> 5 / 10 \<and> (5::real) / 10 < overload_threshold
   \<and> queue_simulate \<lparr>arrival_rate = Fin 5, service_rate = Fin 10\<rparr> =
       Inr \<lparr>avg_wait_time_min = Fin 6, utilization = Fin 0.5, avg_queue_length = Fin 1\<rparr>"
proof -
  have h: "(5::real) / 10 < overload_threshold" by (simp add: overload_threshold_def)
  from normal_branch_matches_formulas [of 10 5] h
  show ?thesis
    by (simp add: queue_simulate_def queue_estimate_normal metrics_eval)
qed

section \<open>The ranges of the outputs\<close>

text \<open>
  Claim C5: for every pair of finite rates the returned wait is in \<open>[0, 300]\<close>, the
  returned utilization in \<open>[0, 0.99]\<close>, the returned queue length in \<open>[0, 100]\<close>, and
  none of them is NaN or infinite. The code returns three finite values in these ranges
  for every pair whose service rate is not zero; with a service rate of zero it raises
  and returns nothing.
\<close>

theorem outputs_in_range_unless_service_rate_zero:
  "(s \<noteq> 0 \<longrightarrow>
      (\<exists>w u q. queue_simulate \<lparr>arrival_rate = Fin a, service_rate = Fin s\<rparr> =
                 Inr \<lparr>avg_wait_time_min = Fin w, utilization = Fin u, avg_queue_length = Fin q\<rparr>
               \<and> 0 \<le> w \<and> w \<le> 300 \<and> 0 \<le> u \<and> u \<le> 0.99 \<and> 0 \<le> q \<and> q \<le> 100))
   \<and> (s = 0 \<longrightarrow>
        queue_simulate \<lparr>arrival_rate = Fin a, service_rate = Fin s\<rparr> = Inl ZeroDivisionError)"
proof (intro conjI impI)
  assume "s \<noteq> 0"
  from queue_estimate_in_range [OF this, of a]
  obtain w u q where
    est: "queue_estimate \<lparr>arrival_rate = Fin a, service_rate = Fin s\<rparr> =
            Inr \<lparr>avg_wait_time_min = Fin w, utilization = Fin u, avg_queue_length = Fin q\<rparr>"
    and b: "0 \<le> w" "w \<le> 300" "0 \<le> u" "u \<le> 0.99" "0 \<le> q" "q \<le> 100"
    by blast
  from round_metrics_bounds [OF b]
  show "\<exists>w u q. queue_simulate \<lparr>arrival_rate = Fin a, service_rate = Fin s\<rparr> =
                 Inr \<lparr>avg_wait_time_min = Fin w, utilization = Fin u, avg_queue_length = Fin q\<rparr>
               \<and> 0 \<le> w \<and> w \<le> 300 \<and> 0 \<le> u \<and> u \<le> 0.99 \<and> 0 \<le> q \<and> q \<le> 100"
    unfolding queue_simulate_def est by auto
next
  assume "s = 0"
  then show "queue_simulate \<lparr>arrival_rate = Fin a, service_rate = Fin s\<rparr> = Inl ZeroDivisionError"
    by (simp add: queue_simulate_def queue_estimate_zero_service)
qed

theorem outputs_in_range_unless_service_rate_zero_witness:
  "(10::real) \<noteq> 0
   \<and> (\<exists>w u q. queue_simulate \<lparr>arrival_rate = Fin 5, service_rate = Fin 10\<rparr> =
                 Inr \<lparr>avg_wait_time_min = Fin w, utilization = Fin u, avg_queue_length = Fin q\<rparr>
               \<and> 0 \<le> w \<and> w \<le> 300 \<and> 0 \<le> u \<and> u \<le> 0.99 \<and> 0 \<le> q \<and> q \<le> 100)
   \<and> queue_simulate \<lparr>arrival_rate = Fin 0, service_rate = Fin 0\<rparr> = Inl ZeroDivisionError"
  using outputs_in_range_unless_service_rate_zero [of 10 5]
    outputs_in_range_unless_service_rate_zero [of 0 0]
  by simp

section \<open>The guards against values that are not finite\<close>



text \<open>
  A NaN arrival rate on a whole request: \<open>rho\<close>, \<open>wait\<close> and \<open>queue_length\<close> are
  NaN, the wait comes out of line 32 as 0.0, and the queue length is the default 50.0.
\<close>

lemma nan_arrival_rate_example:
  "queue_simulate \<lparr>arrival_rate = NaN, service_rate = Fin 1\<rparr> =
     Inr \<lparr>avg_wait_time_min = Fin 0, utilization = Fin 0, avg_queue_length = Fin 50\<rparr>"
  by (simp add: queue_simulate_def queue_estimate_def rho_of_def system_state_def
      wait_to_minutes_def json_safe_wait_def clamp_utilization_def cap_queue_length_def
      nan_to_default_def float_ops metrics_eval)



section \<open>The reported utilization\<close>

text \<open>
  Claim C7 says that for \<open>service_rate > 0\<close> and \<open>0.95 <= rho <= 0.99\<close> the reported
  utilization equals \<open>rho\<close> itself. The response carries \<open>round(utilization, 3)\<close>: with
  \<open>rho = 0.9512\<close> the utilization of line 39 is 0.9512 and the reported one is 0.951.
\<close>

theorem reported_utilization_is_rounded:
  "(0::real) < 1 \<and> (0.95::real) \<le> 0.9512 / 1 \<and> (0.9512::real) / 1 \<le> 0.99
   \<and> queue_simulate \<lparr>arrival_rate = Fin 0.9512, service_rate = Fin 1\<rparr> =
       Inr \<lparr>avg_wait_time_min = Fin 300, utilization = Fin 0.951, avg_queue_length = Fin 50\<rparr>
   \<and> (0.951::real) \<noteq> 0.9512 / 1"
proof -
  have "overload_threshold \<le> 0.9512 / 1" by (simp add: overload_threshold_def)
  then show ?thesis
    by (simp add: queue_simulate_def queue_estimate_overload metrics_eval)
qed

text \<open>
  Claim C7, as amended: whenever the service rate is not zero, the utilization of line 39
  is \<open>rho\<close> clamped to \<open>[0, 0.99]\<close>, computed after the branch on \<open>rho\<close> and without
  regard to it, and the reported utilization is that value rounded to three decimals. For
  every pair with \<open>service_rate > 0\<close> and \<open>0.95 <= rho <= 0.99\<close> the branch has set
  \<open>wait\<close> and \<open>queue_length\<close> to its overload values 240.0 and 50.0, the utilization of
  line 39 is \<open>rho\<close> itself, and the reported utilization is within 0.0005 of \<open>rho\<close> and
  equal to it when \<open>rho\<close> has at most three decimals, as 0.95 for the pair (19, 20).
\<close>

theorem utilization_is_clamped_rho:
  "(s \<noteq> 0 \<longrightarrow>
      (\<exists>r m. rho_of \<lparr>arrival_rate = Fin a, service_rate = Fin s\<rparr> = Inr (Fin r)
           \<and> queue_estimate \<lparr>arrival_rate = Fin a, service_rate = Fin s\<rparr> = Inr m
           \<and> utilization m = Fin (max 0 (min r 0.99))
           \<and> queue_simulate \<lparr>arrival_rate = Fin a, service_rate = Fin s\<rparr> = Inr (round_metrics m)
           \<and> utilization (round_metrics m) = py_round (Fin (max 0 (min r 0.99))) 3))
   \<and> (0 < s \<and> 0.95 \<le> a / s \<and> a / s \<le> 0.99 \<longrightarrow>
        (\<exists>m u. system_state \<lparr>arrival_rate = Fin a, service_rate = Fin s\<rparr> (Fin (a / s)) =
                 Inr (Fin 240, Fin 50)
              \<and> queue_estimate \<lparr>arrival_rate = Fin a, service_rate = Fin s\<rparr> = Inr m
              \<and> utilization m = Fin (a / s)
              \<and> queue_simulate \<lparr>arrival_rate = Fin a, service_rate = Fin s\<rparr> = Inr (round_metrics m)
              \<and> utilization (round_metrics m) = Fin u
              \<and> \<bar>u - a / s\<bar> \<le> 0.0005
              \<and> ((\<exists>k::int. a / s * 1000 = of_int k) \<longrightarrow> u = a / s)))"
proof (intro conjI impI)
  let ?inp = "\<lparr>arrival_rate = Fin a, service_rate = Fin s\<rparr>"
  assume s: "s \<noteq> 0"
  define r where "r = (if 0 < s then a / s else 0)"
  have rho: "rho_of ?inp = Inr (Fin r)" by (simp add: rho_of_finite r_def)
  have "\<exists>w q. system_state ?inp (Fin r) = Inr (w, q)"
    using s by (simp add: system_state_finite)
  then obtain w q where st: "system_state ?inp (Fin r) = Inr (w, q)"
    by blast
  show "\<exists>r m. rho_of ?inp = Inr (Fin r) \<and> queue_estimate ?inp = Inr m
           \<and> utilization m = Fin (max 0 (min r 0.99))
           \<and> queue_simulate ?inp = Inr (round_metrics m)
           \<and> utilization (round_metrics m) = py_round (Fin (max 0 (min r 0.99))) 3"
    by (simp add: queue_simulate_def queue_estimate_def rho st round_metrics_def
        clamp_utilization_finite del: py_round.simps)
next
  let ?inp = "\<lparr>arrival_rate = Fin a, service_rate = Fin s\<rparr>"
  assume h: "0 < s \<and> 0.95 \<le> a / s \<and> a / s \<le> 0.99"
  then have s: "0 < s" and lo: "0.95 \<le> a / s" and hi: "a / s \<le> 0.99" by simp_all
  have "(0::real) \<le> 0.95" by simp
  with lo have nn: "0 \<le> a / s" by linarith
  from hi have m: "min (a / s) 0.99 = a / s" by simp
  from lo threshold_facts(2) have over: "overload_threshold \<le> a / s" by linarith
  have est: "queue_estimate ?inp =
      Inr \<lparr>avg_wait_time_min = Fin 300, utilization = Fin (a / s), avg_queue_length = Fin 50\<rparr>"
    using queue_estimate_overload [OF s over] by (simp only: m)
  from py_round_bounds [of 0 3 "a / s" 990] nn hi
  obtain u where u: "py_round (Fin (a / s)) 3 = Fin u" "\<bar>u - a / s\<bar> \<le> 0.0005"
    by auto
  have ex: "u = a / s" if "\<exists>k::int. a / s * 1000 = of_int k"
  proof -
    from that obtain k :: int where "a / s * 10 ^ 3 = of_int k" by auto
    from py_round_exact [OF this] u(1) show ?thesis by simp
  qed
  show "\<exists>m u. system_state ?inp (Fin (a / s)) = Inr (Fin 240, Fin 50)
              \<and> queue_estimate ?inp = Inr m
              \<and> utilization m = Fin (a / s)
              \<and> queue_simulate ?inp = Inr (round_metrics m)
              \<and> utilization (round_metrics m) = Fin u
              \<and> \<bar>u - a / s\<bar> \<le> 0.0005
              \<and> ((\<exists>k::int. a / s * 1000 = of_int k) \<longrightarrow> u = a / s)"
    using over u ex
    by (simp add: system_state_finite queue_simulate_def est round_metrics_def del: py_round.simps)
qed

theorem utilization_is_clamped_rho_witness:
  "(20::real) \<noteq> 0 \<and> (0::real) < 20 \<and> (0.95::real) \<le> 19 / 20 \<and> (19::real) / 20 \<le> 0.99
   \<and> (19::real) / 20 * 1000 = of_int 950
   \<and> (\<exists>m. queue_simulate \<lparr>arrival_rate = Fin 19, service_rate = Fin 20\<rparr> = Inr m
          \<and> utilization m = Fin (19 / 20))"
proof -
  have h: "(0::real) < 20 \<and> (0.95::real) \<le> 19 / 20 \<and> (19::real) / 20 \<le> 0.99" by simp
  have k: "\<exists>k::int. (19::real) / 20 * 1000 = of_int k" by (rule exI [of _ 950]) simp
  from utilization_is_clamped_rho [of 20 19] h k
  have "\<exists>m. queue_simulate \<lparr>arrival_rate = Fin 19, service_rate = Fin 20\<rparr> = Inr m
          \<and> utilization m = Fin (19 / 20)"
    by blast
  then show ?thesis by simp
qed

section \<open>The traffic simulator: speed and throughput\<close>

text \<open>
  Claim C9: for every real density and any signal timing, the returned average speed is
  between 5.0 and 60.0 and the returned throughput is exactly 10.0 times the speed, hence
  between 50.0 and 600.0.
\<close>

theorem traffic_speed_and_throughput:
  "\<exists>v. traffic_simulate \<lparr>density = Fin d, signal_timing = st\<rparr> =
          \<lparr>avg_speed_kmh = Fin v, throughput_veh_per_hr = Fin (v * 10)\<rparr>
       \<and> 5 \<le> v \<and> v \<le> 60 \<and> 50 \<le> v * 10 \<and> v * 10 \<le> 600"
  by (simp add: traffic_simulate_def float_ops)

section \<open>The resource simulator: satisfaction\<close>

text \<open>
  The staff count is converted to a float on line 14 already. Within the range of the
  conversion the simulator returns \<open>staff * 0.8\<close> and \<open>min(1.0, 0.5 + staff / 100.0)\<close>;
  outside it raises.
\<close>

lemma resource_simulate_in_range:
  assumes "\<bar>n\<bar> < 2 ^ 1024 - 2 ^ 970"
  shows "resource_simulate \<lparr>staff = n, shifts = sh\<rparr> =
           Inr \<lparr>coverage_units = Fin (of_int n * 0.8),
                satisfaction = Fin (min 1 (0.5 + of_int n / 100))\<rparr>"
  using assms by (simp add: resource_simulate_def float_of_int_def float_ops min_def)

lemma resource_simulate_overflow:
  assumes "2 ^ 1024 - 2 ^ 970 \<le> \<bar>n\<bar>"
  shows "resource_simulate \<lparr>staff = n, shifts = sh\<rparr> = Inl OverflowError"
  using assms by (simp add: resource_simulate_def float_of_int_def)

text \<open>
  Claim C10 says that the satisfaction is exactly 1.0 for every \<open>staff >= 50\<close>. A staff
  count of \<open>2^1024\<close> does not convert to a float: line 14 raises \<open>OverflowError\<close> and
  no satisfaction is returned.
\<close>

theorem huge_staff_raises:
  "(50::int) \<le> 2 ^ 1024
   \<and> resource_simulate \<lparr>staff = 2 ^ 1024, shifts = None\<rparr> = Inl OverflowError"
  by (simp add: resource_simulate_def float_of_int_def)

text \<open>
  Claim C10, as amended: for every staff count that converts to a float, which is every
  \<open>staff\<close> with \<open>|staff| < 2^1024 - 2^970\<close>, the returned satisfaction equals
  \<open>min(1.0, 0.5 + staff / 100.0)\<close>: it is monotone non-decreasing in \<open>staff\<close>, never
  exceeds 1.0, equals exactly 1.0 for every such \<open>staff >= 50\<close>, and has no lower clamp,
  so it is negative for every such \<open>staff < -50\<close>.
\<close>

theorem satisfaction_within_float_range:
  assumes "\<bar>n\<bar> < 2 ^ 1024 - 2 ^ 970" and "\<bar>n'\<bar> < 2 ^ 1024 - 2 ^ 970"
  shows "\<exists>r r' x y.
           resource_simulate \<lparr>staff = n, shifts = sh\<rparr> = Inr r
         \<and> satisfaction r = Fin x \<and> x = min 1 (0.5 + of_int n / 100) \<and> x \<le> 1
         \<and> (50 \<le> n \<longrightarrow> x = 1) \<and> (n < - 50 \<longrightarrow> x < 0)
         \<and> resource_simulate \<lparr>staff = n', shifts = sh'\<rparr> = Inr r'
         \<and> satisfaction r' = Fin y \<and> (n \<le> n' \<longrightarrow> x \<le> y)"
proof -
  let ?x = "min 1 (0.5 + real_of_int n / 100)"
  let ?y = "min 1 (0.5 + real_of_int n' / 100)"
  have a: "50 \<le> n \<Longrightarrow> ?x = 1" by simp
  have b: "n < - 50 \<Longrightarrow> ?x < 0" by simp
  have c: "n \<le> n' \<Longrightarrow> ?x \<le> ?y" by simp
  show ?thesis
    using a b c
    by (simp add: resource_simulate_in_range [OF assms(1)] resource_simulate_in_range [OF assms(2)])
qed

theorem satisfaction_within_float_range_witness:
  "\<bar>50::int\<bar> < 2 ^ 1024 - 2 ^ 970 \<and> \<bar>- 51::int\<bar> < 2 ^ 1024 - 2 ^ 970
   \<and> (\<exists>r. resource_simulate \<lparr>staff = 50, shifts = None\<rparr> = Inr r \<and> satisfaction r = Fin 1)
   \<and> (\<exists>r x. resource_simulate \<lparr>staff = - 51, shifts = None\<rparr> = Inr r
           \<and> satisfaction r = Fin x \<and> x < 0)"
proof -
  have h: "\<bar>50::int\<bar> < 2 ^ 1024 - 2 ^ 970" "\<bar>- 51::int\<bar> < 2 ^ 1024 - 2 ^ 970" by simp_all
  from satisfaction_within_float_range [OF h(1) h(1), of None None]
  have p: "\<exists>r. resource_simulate \<lparr>staff = 50, shifts = None\<rparr> = Inr r \<and> satisfaction r = Fin 1"
    by auto
  from satisfaction_within_float_range [OF h(2) h(1), of None None]
  have q: "\<exists>r x. resource_simulate \<lparr>staff = - 51, shifts = None\<rparr> = Inr r
           \<and> satisfaction r = Fin x \<and> x < 0"
    by auto
  from h p q show ?thesis by blast
qed

end
